theory Spec2Isabelle
  imports Main "HOL-Library.Word"
begin

section \<open>JavaScript values used by the form containers\<close>

text \<open>
  A JavaScript string is a sequence of UTF-16 code units. Literals are written
  \<open>js ''title''\<close>.
\<close>

type_synonym js_string = "16 word list"

definition js :: "string \<Rightarrow> js_string" where
  "js s = map of_char s"

text \<open>
  A value map is an object keyed by field name; a key that is not an own property reads
  as \<open>undefined\<close>, here \<open>None\<close>. The error map is the \<open>fieldErrors\<close> object of
  zod's \<open>flatten()\<close>: field name to the ordered list of messages.
\<close>

type_synonym 'v value_map = "js_string \<rightharpoonup> 'v"

type_synonym field_errors = "js_string \<rightharpoonup> js_string list"

text \<open>
  What a \<open>throw\<close> (or a rejected promise) carries. The code observes a thrown value only
  through \<open>instanceof z.ZodError\<close>, \<open>instanceof Error\<close> and, for a ZodError,
  \<open>flatten().fieldErrors\<close>; so a ZodError is identified with that object.
  \<open>NonError\<close> is any thrown value that is not an \<open>Error\<close> instance (a thrown string,
  say).
\<close>

datatype thrown =
    ZodError field_errors
  | Error js_string
  | TypeError
  | NonError

fun instanceof_ZodError :: "thrown \<Rightarrow> bool" where
  "instanceof_ZodError (ZodError fe) = True"
| "instanceof_ZodError t = False"

fun instanceof_Error :: "thrown \<Rightarrow> bool" where
  "instanceof_Error NonError = False"
| "instanceof_Error t = True"

text \<open>The calls a submission makes on things outside the container, in order.\<close>

datatype 'v call =
    PreventDefault
  | OnSubmit "'v value_map"
  | OnError thrown

text \<open>
  \<open>React.useState(initial)\<close>: the stored state of the hook when the component has
  rendered before, the initial value on the first render (mount).
\<close>

definition useState :: "'a \<Rightarrow> 'a option \<Rightarrow> 'a" where
  "useState initial stored = (case stored of None \<Rightarrow> initial | Some s \<Rightarrow> s)"


section \<open>Variant B: \<open>useForm\<close> of components/ui/form.tsx\<close>

text \<open>
  The state of the hook: the two \<open>useState\<close> cells. The pending flag of
  \<open>useTransition\<close> is true only while \<open>handleSubmit\<close> runs and is not part of the
  state between two events.
\<close>

record 'v form_state =
  formData :: "'v value_map"
  errors :: field_errors

definition useForm :: "'v value_map \<Rightarrow> 'v form_state option \<Rightarrow> 'v form_state" where
  "useForm defaultValues stored =
     \<lparr> formData = useState defaultValues (map_option formData stored),
       errors = useState Map.empty (map_option errors stored) \<rparr>"

text \<open>
  The \<open>catch\<close> block of \<open>handleSubmit\<close>: a ZodError replaces the error map; any other
  \<open>Error\<close> goes to \<open>onError\<close> when that callback is supplied; everything else is dropped.
\<close>

definition handleSubmit_catch ::
  "(thrown \<Rightarrow> unit) option \<Rightarrow> thrown \<Rightarrow> 'v form_state \<Rightarrow> 'v call list
     \<Rightarrow> 'v form_state \<times> 'v call list" where
  "handleSubmit_catch onError error st calls =
     (if instanceof_ZodError error then
        (case error of
           ZodError fe \<Rightarrow> (st\<lparr>errors := fe\<rparr>, calls)
         | _ \<Rightarrow> (st, calls))
      else if instanceof_Error error \<and> onError \<noteq> None then (st, calls @ [OnError error])
      else (st, calls))"

text \<open>
  \<open>handleSubmit\<close>: \<open>schema\<close> is \<open>schema.parse\<close> (the parsed data, or what it throws),
  \<open>onSubmit\<close> is the caller's handler (\<open>None\<close> when it resolves, \<open>Some t\<close> when it
  throws or rejects with \<open>t\<close>). The result is the state after the transition and the
  calls made.
\<close>

definition useForm_handleSubmit ::
  "('v value_map \<Rightarrow> thrown + 'v value_map) \<Rightarrow> ('v value_map \<Rightarrow> thrown option)
     \<Rightarrow> (thrown \<Rightarrow> unit) option \<Rightarrow> 'v form_state \<Rightarrow> 'v form_state \<times> 'v call list" where
  "useForm_handleSubmit schema onSubmit onError st =
     (case schema (formData st) of
        Inl error \<Rightarrow> handleSubmit_catch onError error st [PreventDefault]
      | Inr parsedData \<Rightarrow>
          (case onSubmit parsedData of
             None \<Rightarrow> (st, [PreventDefault, OnSubmit parsedData])
           | Some error \<Rightarrow>
               handleSubmit_catch onError error st [PreventDefault, OnSubmit parsedData]))"

definition useForm_setValue :: "js_string \<Rightarrow> 'v \<Rightarrow> 'v form_state \<Rightarrow> 'v form_state" where
  "useForm_setValue name v st = st\<lparr>formData := (formData st)(name \<mapsto> v)\<rparr>"


section \<open>Variant A: \<open>Form\<close> of app/with-mutation/_form.tsx\<close>

text \<open>
  The only state of \<open>Form\<close> is the value map \<open>data\<close>; the error map and the pending
  flag are props. The context value handed to descendants:
\<close>

record 'v form_context =
  data :: "'v value_map"
  errors_prop :: "field_errors option"
  isPending_prop :: "bool option"

definition Form :: "'v value_map \<Rightarrow> field_errors option \<Rightarrow> bool option \<Rightarrow> 'v value_map option
    \<Rightarrow> 'v form_context" where
  "Form defaultValues errs isPending stored =
     \<lparr> data = useState defaultValues stored, errors_prop = errs, isPending_prop = isPending \<rparr>"

text \<open>
  \<open>handleSubmit\<close> of \<open>Form\<close>: the props \<open>onSubmit\<close> (optional), \<open>isReset\<close> (optional,
  default \<open>false\<close>) and \<open>defaultValues\<close>, and the current \<open>data\<close>. The result is the
  value map afterwards, the calls made, and what the returned promise rejects with.
\<close>

definition Form_handleSubmit ::
  "('v value_map \<Rightarrow> thrown option) option \<Rightarrow> bool option \<Rightarrow> 'v value_map \<Rightarrow> 'v value_map
     \<Rightarrow> 'v value_map \<times> 'v call list \<times> thrown option" where
  "Form_handleSubmit onSubmit isReset defaultValues d =
     (case onSubmit of
        None \<Rightarrow> (d, [], None)
      | Some handler \<Rightarrow>
          (case handler d of
             Some error \<Rightarrow> (d, [PreventDefault, OnSubmit d], Some error)
           | None \<Rightarrow>
               (if (case isReset of None \<Rightarrow> False | Some b \<Rightarrow> b) then defaultValues else d,
                [PreventDefault, OnSubmit d], None)))"

text \<open>\<open>setData\<close>: the object spread \<open>{...prev, ...data}\<close>.\<close>

definition Form_setData :: "'v value_map \<Rightarrow> 'v value_map \<Rightarrow> 'v value_map" where
  "Form_setData upd prev = prev ++ upd"


section \<open>Variant A: the change handler of \<open>FormField\<close>\<close>

text \<open>
  Number values as \<open>parseInt\<close> produces them: \<open>NaN\<close>, negative zero, the two
  infinities, or \<open>Finite n\<close>, the double whose value is the integer \<open>n\<close> (positive zero
  for \<open>n = 0\<close>). Only integers that a double holds exactly occur under \<open>Finite\<close>.
\<close>

datatype js_number = NaN | NegZero | Finite int | Infinity | NegInfinity

datatype js_value = Str js_string | Num js_number

text \<open>
  The code units that \<open>TrimString\<close> removes: ECMAScript's WhiteSpace (TAB, VT, FF,
  ZWNBSP and the space separators) and LineTerminator (LF, CR, LS, PS).
\<close>

definition isWhiteSpace :: "16 word \<Rightarrow> bool" where
  "isWhiteSpace c \<longleftrightarrow>
     c = 0x0009 \<or> c = 0x000B \<or> c = 0x000C \<or> c = 0xFEFF \<or>
     c = 0x0020 \<or> c = 0x00A0 \<or> c = 0x1680 \<or> (0x2000 \<le> c \<and> c \<le> 0x200A) \<or>
     c = 0x202F \<or> c = 0x205F \<or> c = 0x3000 \<or>
     c = 0x000A \<or> c = 0x000D \<or> c = 0x2028 \<or> c = 0x2029"

definition isDigit :: "16 word \<Rightarrow> bool" where
  "isDigit c \<longleftrightarrow> 0x30 \<le> c \<and> c \<le> 0x39"

definition digitValue :: "16 word \<Rightarrow> int" where
  "digitValue c = uint c - 0x30"

definition trimStart :: "js_string \<Rightarrow> js_string" where
  "trimStart s = dropWhile isWhiteSpace s"

definition trim :: "js_string \<Rightarrow> js_string" where
  "trim s = rev (dropWhile isWhiteSpace (rev (dropWhile isWhiteSpace s)))"

text \<open>
  The Number value for a non-negative integer \<open>m\<close>, as IEEE 754 binary64 rounds it: with
  \<open>e = binary_exponent m\<close> the quotient \<open>m div 2 ^ e\<close> has at most 53 bits; it is kept when
  the remainder is below half of \<open>2 ^ e\<close>, raised by one when above, and made even on a tie.
\<close>

function binary_exponent :: "int \<Rightarrow> nat" where
  "binary_exponent m = (if m < 2 ^ 53 then 0 else Suc (binary_exponent (m div 2)))"
  by pat_completeness auto
termination
  by (relation "measure nat") auto

declare binary_exponent.simps [simp del]

definition roundTiesToEven :: "int \<Rightarrow> int" where
  "roundTiesToEven m =
     (let e = binary_exponent m; q = m div 2 ^ e; r = m mod 2 ^ e
      in (if 2 ^ e < 2 * r \<or> (2 * r = 2 ^ e \<and> odd q) then q + 1 else q) * 2 ^ e)"

text \<open>
  The Number value for a non-zero integer \<open>x\<close>: the rounded magnitude with the sign of
  \<open>x\<close>, an infinity when the rounded magnitude reaches \<open>2 ^ 1024\<close>.
\<close>

definition Number_value :: "int \<Rightarrow> js_number" where
  "Number_value x =
     (let r = roundTiesToEven \<bar>x\<bar>
      in if 2 ^ 1024 \<le> r then (if x < 0 then NegInfinity else Infinity)
         else Finite (if x < 0 then - r else r))"

text \<open>
  \<open>parseInt(string, 10)\<close>, step by step as ECMAScript defines it: trim leading white
  space, take a sign, keep the longest run of decimal digits, \<open>NaN\<close> when that run is
  empty; otherwise the integer the run writes, as positive or negative zero when it is
  zero and else as the Number value of the signed integer. With radix 10 given, no
  \<open>0x\<close> prefix is recognised. All digits of the run count (ECMAScript lets an engine
  zero the digits after the twentieth; V8 does not).
\<close>

definition parseInt10 :: "js_string \<Rightarrow> js_number" where
  "parseInt10 string =
     (let S = trimStart string;
          negative = (S \<noteq> [] \<and> hd S = 0x2D);
          S' = (if S \<noteq> [] \<and> (hd S = 0x2B \<or> hd S = 0x2D) then tl S else S);
          Z = takeWhile isDigit S'
      in if Z = [] then NaN
         else
           (let mathInt = foldl (\<lambda>acc c. 10 * acc + digitValue c) 0 Z
            in if mathInt = 0 then (if negative then NegZero else Finite 0)
               else Number_value (if negative then - mathInt else mathInt)))"

definition Number_isNaN :: "js_number \<Rightarrow> bool" where
  "Number_isNaN x \<longleftrightarrow> x = NaN"

text \<open>
  The argument of \<open>onChange\<close>: a raw string, or a change event, of which only
  \<open>currentTarget.value\<close> is read.
\<close>

datatype change_arg = RawString js_string | ChangeEvent js_string

definition FormField_onChange ::
  "js_string \<Rightarrow> js_string option \<Rightarrow> change_arg \<Rightarrow> js_value value_map \<Rightarrow> js_value value_map" where
  "FormField_onChange name type event prev =
     (let type' = (case type of None \<Rightarrow> js ''text'' | Some t \<Rightarrow> t);
          v = (case event of RawString s \<Rightarrow> s | ChangeEvent currentTarget_value \<Rightarrow> currentTarget_value)
      in Form_setData
           [name \<mapsto>
              (if type' = js ''number''
               then Num (if Number_isNaN (parseInt10 v) then Finite 0 else parseInt10 v)
               else Str v)]
           prev)"

text \<open>
  What the statements about parsing are measured against, written independently of how
  \<open>parseInt10\<close> computes.

  The positional value of a run of decimal digits, most significant first: the integer
  these digits write.
\<close>

definition decimal :: "js_string \<Rightarrow> int" where
  "decimal ds = (\<Sum>i<length ds. digitValue (ds ! i) * 10 ^ (length ds - Suc i))"

text \<open>
  The string \<open>v\<close> has an integer prefix with sign \<open>sg\<close> and digits \<open>ds\<close>: it is white
  space, then \<open>sg\<close> (nothing, \<open>+\<close> or \<open>-\<close>), then the non-empty digit run \<open>ds\<close>, then a
  rest that does not go on with a digit.
\<close>

definition integer_prefix :: "js_string \<Rightarrow> js_string \<Rightarrow> js_string \<Rightarrow> bool" where
  "integer_prefix v sg ds \<longleftrightarrow>
     (\<exists>ws rest. v = ws @ sg @ ds @ rest \<and> (\<forall>c\<in>set ws. isWhiteSpace c) \<and>
        (sg = [] \<or> sg = [0x2B] \<or> sg = [0x2D]) \<and> ds \<noteq> [] \<and> (\<forall>c\<in>set ds. isDigit c) \<and>
        (rest = [] \<or> \<not> isDigit (hd rest)))"

text \<open>
  \<open>k * 2 ^ e\<close> is the double nearest to the integer \<open>m\<close> of \<open>53 + e\<close> bits: \<open>k\<close> has at most
  53 bits (or is \<open>2 ^ 53\<close>), the distance is at most half of \<open>2 ^ e\<close>, and on exactly half
  \<open>k\<close> is even.
\<close>

definition nearest_even :: "int \<Rightarrow> nat \<Rightarrow> int \<Rightarrow> bool" where
  "nearest_even m e k \<longleftrightarrow>
     2 ^ (52 + e) \<le> m \<and> m < 2 ^ (53 + e) \<and> 2 ^ 52 \<le> k \<and> k \<le> 2 ^ 53 \<and>
     2 * \<bar>k * 2 ^ e - m\<bar> \<le> 2 ^ e \<and> (2 * \<bar>k * 2 ^ e - m\<bar> = 2 ^ e \<longrightarrow> even k)"

text \<open>
  \<open>x\<close> is the JavaScript number for the integer \<open>m\<close>: \<open>m\<close> itself up to \<open>2 ^ 53\<close> in
  magnitude; beyond, the nearest double with the sign of \<open>m\<close>, ties to even, and an
  infinity once that double would be \<open>2 ^ 1024\<close>.
\<close>

definition Number_for :: "int \<Rightarrow> js_number \<Rightarrow> bool" where
  "Number_for m x \<longleftrightarrow>
     (if \<bar>m\<bar> \<le> 2 ^ 53 then x = Finite m
      else (\<exists>e k. nearest_even \<bar>m\<bar> e k \<and>
              x = (if 2 ^ 1024 \<le> k * 2 ^ e then (if m < 0 then NegInfinity else Infinity)
                   else Finite (if m < 0 then - (k * 2 ^ e) else k * 2 ^ e))))"

text \<open>
  \<open>x\<close> is the number written by the sign \<open>sg\<close> and the digits \<open>ds\<close>: a zero keeps the
  sign as negative or positive zero.
\<close>

definition prefix_number :: "js_string \<Rightarrow> js_string \<Rightarrow> js_number \<Rightarrow> bool" where
  "prefix_number sg ds x \<longleftrightarrow>
     (if decimal ds = 0 then x = (if sg = [0x2D] then NegZero else Finite 0)
      else Number_for (if sg = [0x2D] then - decimal ds else decimal ds) x)"


section \<open>The field hook and the bound controls\<close>

text \<open>
  \<open>!fieldContext.name\<close>: the name is \<open>undefined\<close> (the default context \<open>{}\<close>, no
  \<open>FormField\<close> above) or the empty string.
\<close>

definition falsy_string :: "js_string option \<Rightarrow> bool" where
  "falsy_string s \<longleftrightarrow> s = None \<or> s = Some []"

text \<open>The template literal \<open>`${id}`\<close>: an absent id prints as \<open>undefined\<close>.\<close>

definition template :: "js_string option \<Rightarrow> js_string" where
  "template x = (case x of None \<Rightarrow> js ''undefined'' | Some s \<Rightarrow> s)"

text \<open>
  The object \<open>useFormField\<close> returns. Variant A copies \<open>type\<close> from the field context
  and has no \<open>value\<close>; Variant B has \<open>value\<close> and no \<open>type\<close>; a property that is not
  there is \<open>None\<close>. The \<open>setValue\<close> closure of Variant B is \<open>useForm_setValue\<close> at
  \<open>field_name\<close>.
\<close>

record 'v field =
  field_id :: "js_string option"
  field_name :: js_string
  field_type :: "js_string option"
  field_value :: "'v option"
  field_error :: "js_string list option"
  formItemId :: js_string
  formDescriptionId :: js_string
  formMessageId :: js_string

definition context_misuse :: thrown where
  "context_misuse = Error (js ''useFormField should be used within <FormField>'')"

text \<open>
  Variant B. The arguments are what the three \<open>React.use\<close> calls read: the name of the
  field context, the id of the item context, and the form context (\<open>None\<close> for the
  default \<open>{}\<close>, where reading \<open>form.formData[name]\<close> throws a TypeError).
\<close>

definition useFormField_B ::
  "js_string option \<Rightarrow> js_string option \<Rightarrow> 'v form_state option \<Rightarrow> thrown + 'v field" where
  "useFormField_B fieldContext_name itemContext_id form =
     (if falsy_string fieldContext_name then Inl context_misuse
      else
        (case fieldContext_name of
           None \<Rightarrow> Inl context_misuse
         | Some name \<Rightarrow>
             (case form of
                None \<Rightarrow> Inl TypeError
              | Some st \<Rightarrow>
                  Inr \<lparr> field_id = itemContext_id,
                        field_name = name,
                        field_type = None,
                        field_value = formData st name,
                        field_error = errors st name,
                        formItemId = template itemContext_id @ js ''-form-item'',
                        formDescriptionId = template itemContext_id @ js ''-form-item-description'',
                        formMessageId = template itemContext_id @ js ''-form-item-message'' \<rparr>)))"

text \<open>Variant A: \<open>form.errors?.[name]\<close> tolerates an absent form context or error map.\<close>

definition useFormField_A ::
  "js_string option \<Rightarrow> js_string option \<Rightarrow> js_string option \<Rightarrow> 'v form_context option
     \<Rightarrow> thrown + 'v field" where
  "useFormField_A fieldContext_name fieldContext_type itemContext_id form =
     (if falsy_string fieldContext_name then Inl context_misuse
      else
        (case fieldContext_name of
           None \<Rightarrow> Inl context_misuse
         | Some name \<Rightarrow>
             Inr \<lparr> field_id = itemContext_id,
                   field_name = name,
                   field_type = fieldContext_type,
                   field_value = None,
                   field_error =
                     (case form of
                        None \<Rightarrow> None
                      | Some ctx \<Rightarrow>
                          (case errors_prop ctx of None \<Rightarrow> None | Some es \<Rightarrow> es name)),
                   formItemId = template itemContext_id @ js ''-form-item'',
                   formDescriptionId = template itemContext_id @ js ''-form-item-description'',
                   formMessageId = template itemContext_id @ js ''-form-item-message'' \<rparr>))"

text \<open>
  What a bound control renders, reduced to the attributes it takes from the field
  binding (class names, spread props and the value wiring of Variant B's input are
  presentation): the label's \<open>htmlFor\<close> and whether it is marked destructive; the
  control's \<open>id\<close>, \<open>name\<close>, \<open>type\<close>, \<open>aria-describedby\<close> and \<open>aria-invalid\<close>; the
  description's \<open>id\<close>; the message's \<open>id\<close> and body; \<open>Null\<close> for a \<open>null\<close> render.
\<close>

datatype rendered =
    Label js_string bool
  | Control js_string js_string "js_string option" js_string bool
  | Description js_string
  | Message js_string js_string
  | Null

text \<open>\<open>String(error)\<close> on the array of messages is \<open>error.join(',')\<close>.\<close>

fun join :: "js_string \<Rightarrow> js_string list \<Rightarrow> js_string" where
  "join sep [] = []"
| "join sep [x] = x"
| "join sep (x # y # ys) = x @ sep @ join sep (y # ys)"

text \<open>
  The four controls have the same body in both files up to the hook they call; the
  argument \<open>hook\<close> is the outcome of that variant's \<open>useFormField()\<close>. A throw of the
  hook leaves the component before it returns any element.
\<close>

definition FormLabel :: "thrown + 'v field \<Rightarrow> thrown + rendered" where
  "FormLabel hook =
     (case hook of
        Inl error \<Rightarrow> Inl error
      | Inr f \<Rightarrow> Inr (Label (formItemId f) (field_error f \<noteq> None)))"

definition FormControl :: "thrown + 'v field \<Rightarrow> thrown + rendered" where
  "FormControl hook =
     (case hook of
        Inl error \<Rightarrow> Inl error
      | Inr f \<Rightarrow>
          Inr (Control (formItemId f) (field_name f) (field_type f)
                 (if field_error f = None then formDescriptionId f
                  else formDescriptionId f @ js '' '' @ formMessageId f)
                 (field_error f \<noteq> None)))"

definition FormDescription :: "thrown + 'v field \<Rightarrow> thrown + rendered" where
  "FormDescription hook =
     (case hook of
        Inl error \<Rightarrow> Inl error
      | Inr f \<Rightarrow> Inr (Description (formDescriptionId f)))"

text \<open>\<open>children\<close> is the text child of the message, if any.\<close>

definition FormMessage :: "thrown + 'v field \<Rightarrow> js_string option \<Rightarrow> thrown + rendered" where
  "FormMessage hook children =
     (case hook of
        Inl error \<Rightarrow> Inl error
      | Inr f \<Rightarrow>
          (let body = (case field_error f of Some es \<Rightarrow> Some (join (js '','') es) | None \<Rightarrow> children)
           in if falsy_string body then Inr Null
              else (case body of None \<Rightarrow> Inr Null | Some b \<Rightarrow> Inr (Message (formMessageId f) b))))"


section \<open>The page \<open>Home\<close> of app/page.tsx\<close>

text \<open>
  \<open>z.string().min(1)\<close> on one property: a value that is not a string is an
  \<open>invalid_type\<close> issue, a string shorter than one code unit a \<open>too_small\<close> issue. The
  text zod gives an issue is not part of the repository and is the parameter \<open>message\<close>.
\<close>

datatype zod_issue = invalid_type | too_small

definition z_string_min1 ::
  "(zod_issue \<Rightarrow> js_string) \<Rightarrow> js_value option \<Rightarrow> js_string list + js_value" where
  "z_string_min1 message input =
     (case input of
        Some (Str s) \<Rightarrow> if length s < 1 then Inl [message too_small] else Inr (Str s)
      | _ \<Rightarrow> Inl [message invalid_type])"

text \<open>
  \<open>z.object({title: z.string().min(1), content: z.string().min(1)}).parse\<close>: the two
  properties checked, unknown keys stripped; on failure a ZodError whose
  \<open>flatten().fieldErrors\<close> lists the messages of each failing property.
\<close>

definition Home_schema ::
  "(zod_issue \<Rightarrow> js_string) \<Rightarrow> js_value value_map \<Rightarrow> thrown + js_value value_map" where
  "Home_schema message d =
     (case (z_string_min1 message (d (js ''title'')), z_string_min1 message (d (js ''content''))) of
        (Inr t, Inr c) \<Rightarrow> Inr [js ''title'' \<mapsto> t, js ''content'' \<mapsto> c]
      | (rt, rc) \<Rightarrow>
          Inl (ZodError
                 (\<lambda>k. if k = js ''title'' then (case rt of Inl ms \<Rightarrow> Some ms | Inr _ \<Rightarrow> None)
                      else if k = js ''content'' then (case rc of Inl ms \<Rightarrow> Some ms | Inr _ \<Rightarrow> None)
                      else None)))"

text \<open>
  The submit handler of the page. \<open>toLowerCase\<close> is \<open>String.prototype.toLowerCase\<close>,
  whose Unicode case table is not part of the repository: a parameter. Reading
  \<open>toLowerCase\<close> off a title that is not a string is a TypeError.
\<close>

definition Home_onSubmit ::
  "(js_string \<Rightarrow> js_string) \<Rightarrow> js_value value_map \<Rightarrow> thrown option" where
  "Home_onSubmit toLowerCase d =
     (case d (js ''title'') of
        Some (Str title) \<Rightarrow>
          if trim (toLowerCase title) = js ''hello'' then Some (Error (js ''Title is invalid''))
          else None
      | _ \<Rightarrow> Some TypeError)"

definition Home_onError :: "(thrown \<Rightarrow> unit) option" where
  "Home_onError = Some (\<lambda>error. ())"

definition Home_defaultValues :: "js_value value_map" where
  "Home_defaultValues = [js ''title'' \<mapsto> Str [], js ''content'' \<mapsto> Str []]"

text \<open>
  The case table on strings of ASCII code units, where \<open>toLowerCase\<close> maps \<open>A\<close> to
  \<open>Z\<close> onto \<open>a\<close> to \<open>z\<close> and nothing else; it runs the page on ASCII input.
\<close>

definition toLowerCase_ASCII :: "js_string \<Rightarrow> js_string" where
  "toLowerCase_ASCII s = map (\<lambda>c. if 0x41 \<le> c \<and> c \<le> 0x5A then c + 0x20 else c) s"


text \<open>
  The page wired together: its \<open>useForm\<close> call on mount and its submit routine. The
  texts of the two issues stand for zod's.
\<close>

definition issue_text :: "zod_issue \<Rightarrow> js_string" where
  "issue_text i = (case i of invalid_type \<Rightarrow> js ''Invalid input'' | too_small \<Rightarrow> js ''Too small'')"

definition Home_mount :: "js_value form_state" where
  "Home_mount = useForm Home_defaultValues None"

definition Home_handleSubmit :: "js_value form_state \<Rightarrow> js_value form_state \<times> js_value call list" where
  "Home_handleSubmit =
     useForm_handleSubmit (Home_schema issue_text) (Home_onSubmit toLowerCase_ASCII) Home_onError"

text \<open>
  Typing into the two controls of the page: each \<open>onChange\<close> of \<open>FormControl\<close>
  calls \<open>setValue\<close> with the text of its input.
\<close>

definition Home_type :: "js_string \<Rightarrow> js_string \<Rightarrow> js_value form_state \<Rightarrow> js_value form_state" where
  "Home_type title content st =
     useForm_setValue (js ''content'') (Str content)
       (useForm_setValue (js ''title'') (Str title) st)"



section \<open>The component \<open>CreatePostForm\<close> of app/with-mutation/page.client.tsx\<close>

text \<open>
  The props it gives \<open>Form\<close>: the default values, and \<open>mutate\<close> of \<open>useMutation\<close> as
  submit handler, which starts the mutation and returns; a failure of the mutation shows
  in the \<open>error\<close> of the mutation, never as a throw of \<open>mutate\<close>.
\<close>

definition CreatePostForm_defaultValues :: "js_value value_map" where
  "CreatePostForm_defaultValues =
     [js ''title'' \<mapsto> Str [], js ''content'' \<mapsto> Str [], js ''category'' \<mapsto> Str [],
      js ''price'' \<mapsto> Num (Finite 0)]"

definition CreatePostForm_mutate :: "js_value value_map \<Rightarrow> thrown option" where
  "CreatePostForm_mutate d = None"


section \<open>Submission in Variant B\<close>


lemma Home_type_formData:
  "formData st = Home_defaultValues \<Longrightarrow>
   formData (Home_type t c st) = [js ''title'' \<mapsto> Str t, js ''content'' \<mapsto> Str c]"
  by (rule ext) (simp add: Home_type_def Home_defaultValues_def useForm_setValue_def js_def)

lemma Home_mount_formData: "formData Home_mount = Home_defaultValues"
  by (simp add: Home_mount_def useForm_def useState_def)



lemma Home_schema_accepts:
  "t \<noteq> [] \<Longrightarrow> c \<noteq> [] \<Longrightarrow>
   Home_schema issue_text [js ''title'' \<mapsto> Str t, js ''content'' \<mapsto> Str c]
     = Inr [js ''title'' \<mapsto> Str t, js ''content'' \<mapsto> Str c]"
  by (simp add: Home_schema_def z_string_min1_def js_def)

lemma Home_schema_rejects_defaults:
  "Home_schema issue_text (formData Home_mount) =
     Inl (ZodError (\<lambda>k. if k = js ''title'' then Some [js ''Too small'']
                        else if k = js ''content'' then Some [js ''Too small''] else None))"
  by (simp add: Home_schema_def Home_mount_def useForm_def useState_def Home_defaultValues_def
      z_string_min1_def issue_text_def js_def fun_eq_iff)


lemma Home_onSubmit_Hello:
  "Home_onSubmit toLowerCase_ASCII
     [js ''title'' \<mapsto> Str (js ''Hello''), js ''content'' \<mapsto> Str (js ''x'')]
     = Some (Error (js ''Title is invalid''))"
  by (simp add: Home_onSubmit_def toLowerCase_ASCII_def trim_def isWhiteSpace_def js_def)




text \<open>
  C2. In Variant B, when \<open>schema.parse\<close> throws a ZodError on the value map, the submit
  handler is never called (the only call made is \<open>preventDefault\<close>), and the error map
  afterwards is the \<open>fieldErrors\<close> of the flattened ZodError, with the same keys; the
  value map is untouched.
\<close>

theorem invalid_submit_sets_errors:
  assumes "schema (formData st) = Inl (ZodError fe)"
  shows "snd (useForm_handleSubmit schema onSubmit onError st) = [PreventDefault] \<and>
         errors (fst (useForm_handleSubmit schema onSubmit onError st)) = fe \<and>
         dom (errors (fst (useForm_handleSubmit schema onSubmit onError st))) = dom fe \<and>
         formData (fst (useForm_handleSubmit schema onSubmit onError st)) = formData st"
  using assms by (simp add: useForm_handleSubmit_def handleSubmit_catch_def)

text \<open>On the page: submitting the untouched form, whose two fields are empty strings.\<close>

theorem invalid_submit_sets_errors_witness:
  "snd (Home_handleSubmit Home_mount) = [PreventDefault] \<and>
   errors (fst (Home_handleSubmit Home_mount)) (js ''title'') = Some [js ''Too small''] \<and>
   errors (fst (Home_handleSubmit Home_mount)) (js ''content'') = Some [js ''Too small''] \<and>
   errors (fst (Home_handleSubmit Home_mount)) (js ''price'') = None \<and>
   formData (fst (Home_handleSubmit Home_mount)) = Home_defaultValues"
proof -
  note m = Home_mount_formData
  have r: "snd (Home_handleSubmit Home_mount) = [PreventDefault] \<and>
      errors (fst (Home_handleSubmit Home_mount)) =
        (\<lambda>k. if k = js ''title'' then Some [js ''Too small'']
             else if k = js ''content'' then Some [js ''Too small''] else None) \<and>
      formData (fst (Home_handleSubmit Home_mount)) = Home_defaultValues"
    unfolding Home_handleSubmit_def
    using invalid_submit_sets_errors[of "Home_schema issue_text" Home_mount _
        "Home_onSubmit toLowerCase_ASCII" Home_onError] Home_schema_rejects_defaults m
    by simp
  then show ?thesis by (simp add: js_def)
qed

text \<open>
  C3. In Variant B, when the value map passes the schema and the submit handler throws
  an \<open>Error\<close> that is not a ZodError, and an error callback is supplied, the callback
  is called with that error (after \<open>preventDefault\<close> and the handler), and the
  submission changes neither the value map nor the error map.
\<close>

theorem handler_error_reaches_onError:
  assumes "schema (formData st) = Inr d" and "onSubmit d = Some error"
    and "instanceof_Error error" and "\<not> instanceof_ZodError error"
    and "onError = Some callback"
  shows "snd (useForm_handleSubmit schema onSubmit onError st)
           = [PreventDefault, OnSubmit d, OnError error] \<and>
         formData (fst (useForm_handleSubmit schema onSubmit onError st)) = formData st \<and>
         errors (fst (useForm_handleSubmit schema onSubmit onError st)) = errors st"
  using assms by (simp add: useForm_handleSubmit_def handleSubmit_catch_def)

text \<open>
  The scenario of the page: defaults \<open>{title: '', content: ''}\<close>, then \<open>Hello\<close> and
  \<open>x\<close> typed and submitted. The handler throws \<open>Title is invalid\<close>, which reaches the
  error callback; the value map is still \<open>{title: 'Hello', content: 'x'}\<close>.
\<close>

theorem handler_error_reaches_onError_witness:
  "snd (Home_handleSubmit (Home_type (js ''Hello'') (js ''x'') Home_mount))
     = [PreventDefault,
        OnSubmit [js ''title'' \<mapsto> Str (js ''Hello''), js ''content'' \<mapsto> Str (js ''x'')],
        OnError (Error (js ''Title is invalid''))] \<and>
   formData (fst (Home_handleSubmit (Home_type (js ''Hello'') (js ''x'') Home_mount)))
     = [js ''title'' \<mapsto> Str (js ''Hello''), js ''content'' \<mapsto> Str (js ''x'')]"
proof -
  let ?d = "[js ''title'' \<mapsto> Str (js ''Hello''), js ''content'' \<mapsto> Str (js ''x'')]"
  let ?st = "Home_type (js ''Hello'') (js ''x'') Home_mount"
  have f: "formData ?st = ?d" by (rule Home_type_formData[OF Home_mount_formData])
  have p: "Home_schema issue_text (formData ?st) = Inr ?d"
    unfolding f by (rule Home_schema_accepts) (simp_all add: js_def)
  have e: "Home_onError = Some (\<lambda>error. ())" by (simp add: Home_onError_def)
  show ?thesis
    unfolding Home_handleSubmit_def
    using handler_error_reaches_onError[of "Home_schema issue_text" ?st ?d
        "Home_onSubmit toLowerCase_ASCII" "Error (js ''Title is invalid'')" Home_onError
        "\<lambda>error. ()"]
      p Home_onSubmit_Hello e f
    by simp
qed


section \<open>Mounting, setting and submitting\<close>

text \<open>
  C6. Mounting either container (first render, no stored state) and reading the exposed
  values gives exactly the caller's default value map.
\<close>

theorem mount_exposes_defaults:
  "formData (useForm V None) = V \<and> data (Form V errs pend None) = V"
  by (simp add: useForm_def Form_def useState_def)

text \<open>
  C10. Variant A without a submit handler: the routine returns at once. No call is made
  (so \<open>preventDefault\<close> is not called), the value map is the one before, and nothing is
  reset, whatever \<open>isReset\<close> and the current values are.
\<close>

theorem Form_handleSubmit_no_handler:
  "Form_handleSubmit None isReset defaultValues d = (d, [], None)"
  by (simp add: Form_handleSubmit_def)

text \<open>
  C5. Variant A. With \<open>isReset\<close> set and a submit handler that resolves, the value map
  after the submission is the \<open>defaultValues\<close> prop, not the submitted values. With
  \<open>isReset\<close> absent or false, the submission leaves the value map as it was, whatever
  the handler does.
\<close>

theorem reset_on_submit:
  "(handler d = None \<longrightarrow>
      fst (Form_handleSubmit (Some handler) (Some True) defaultValues d) = defaultValues) \<and>
   (isReset \<noteq> Some True \<longrightarrow>
      fst (Form_handleSubmit onSubmit isReset defaultValues d) = d)"
  by (auto simp: Form_handleSubmit_def split: option.split)

text \<open>On \<open>CreatePostForm\<close>, after the title \<open>Hi\<close> has been typed.\<close>

theorem reset_on_submit_witness:
  "fst (Form_handleSubmit (Some CreatePostForm_mutate) (Some True) CreatePostForm_defaultValues
          (Form_setData [js ''title'' \<mapsto> Str (js ''Hi'')] CreatePostForm_defaultValues))
     = CreatePostForm_defaultValues \<and>
   fst (Form_handleSubmit (Some CreatePostForm_mutate) None CreatePostForm_defaultValues
          (Form_setData [js ''title'' \<mapsto> Str (js ''Hi'')] CreatePostForm_defaultValues))
     = Form_setData [js ''title'' \<mapsto> Str (js ''Hi'')] CreatePostForm_defaultValues \<and>
   Form_setData [js ''title'' \<mapsto> Str (js ''Hi'')] CreatePostForm_defaultValues (js ''title'')
     = Some (Str (js ''Hi'')) \<and>
   CreatePostForm_defaultValues (js ''title'') = Some (Str [])"
proof -
  let ?d = "Form_setData [js ''title'' \<mapsto> Str (js ''Hi'')] CreatePostForm_defaultValues"
  have m: "CreatePostForm_mutate ?d = None" by (simp add: CreatePostForm_mutate_def)
  have n: "(None :: bool option) \<noteq> Some True" by simp
  have v: "?d (js ''title'') = Some (Str (js ''Hi''))"
       "CreatePostForm_defaultValues (js ''title'') = Some (Str [])"
    by (simp_all add: Form_setData_def CreatePostForm_defaultValues_def js_def)
  show ?thesis
    using reset_on_submit[of CreatePostForm_mutate ?d CreatePostForm_defaultValues None
        "Some CreatePostForm_mutate"] m n v
    by simp
qed

text \<open>
  C8. The setters merge shallowly, last write wins. In Variant B \<open>setValue name v\<close>, in
  Variant A \<open>setData {[name]: v}\<close>: the field \<open>name\<close> holds \<open>v\<close> afterwards and every
  other field holds what it held before (Variant B's error map is not touched). A
  partial update \<open>upd\<close> of Variant A overrides exactly its own keys. A second write to
  the same field replaces the first.
\<close>

theorem setter_shallow_merge:
  "formData (useForm_setValue name v st) name = Some v \<and>
   (\<forall>k. k \<noteq> name \<longrightarrow> formData (useForm_setValue name v st) k = formData st k) \<and>
   errors (useForm_setValue name v st) = errors st \<and>
   Form_setData [name \<mapsto> v] prev name = Some v \<and>
   (\<forall>k. k \<noteq> name \<longrightarrow> Form_setData [name \<mapsto> v] prev k = prev k) \<and>
   Form_setData upd prev k' = (case upd k' of None \<Rightarrow> prev k' | Some x \<Rightarrow> Some x) \<and>
   useForm_setValue name w (useForm_setValue name v st) = useForm_setValue name w st \<and>
   Form_setData [name \<mapsto> w] (Form_setData [name \<mapsto> v] prev) = Form_setData [name \<mapsto> w] prev"
proof -
  have merge: "Form_setData [name \<mapsto> x] p = p(name \<mapsto> x)" for x and p :: "'b value_map"
    by (simp add: Form_setData_def)
  have "Form_setData upd prev k' = (case upd k' of None \<Rightarrow> prev k' | Some x \<Rightarrow> Some x)"
    by (simp add: Form_setData_def map_add_def)
  then show ?thesis
    by (simp add: merge useForm_setValue_def)
qed

theorem setter_shallow_merge_witness:
  "formData (useForm_setValue (js ''title'') (Str (js ''Hi'')) Home_mount) (js ''title'')
     = Some (Str (js ''Hi'')) \<and>
   formData (useForm_setValue (js ''title'') (Str (js ''Hi'')) Home_mount) (js ''content'')
     = Some (Str []) \<and>
   Form_setData [js ''price'' \<mapsto> Num (Finite 5)] CreatePostForm_defaultValues (js ''price'')
     = Some (Num (Finite 5)) \<and>
   Form_setData [js ''price'' \<mapsto> Num (Finite 5)] CreatePostForm_defaultValues (js ''title'')
     = Some (Str [])"
proof -
  have a: "js ''content'' \<noteq> js ''title''" "js ''title'' \<noteq> js ''price''" by (simp_all add: js_def)
  have b: "formData Home_mount (js ''content'') = Some (Str [])"
    by (simp add: Home_mount_def useForm_def useState_def Home_defaultValues_def)
  have c: "CreatePostForm_defaultValues (js ''title'') = Some (Str [])"
    by (simp add: CreatePostForm_defaultValues_def js_def)
  show ?thesis
    using setter_shallow_merge[of "js ''title''" "Str (js ''Hi'')" Home_mount Map.empty Map.empty
        "js ''title''" "Str (js ''Hi'')"]
      setter_shallow_merge[of "js ''price''" "Num (Finite 5)" Home_mount
        CreatePostForm_defaultValues Map.empty "js ''price''" "Num (Finite 5)"]
      a b c
    by simp
qed


section \<open>The field hook outside a field context\<close>

lemma useFormField_falsy:
  assumes "falsy_string name"
  shows "useFormField_B name itemId formB = Inl context_misuse"
    and "useFormField_A name type itemId formA = Inl context_misuse"
  using assms by (simp_all add: useFormField_B_def useFormField_A_def)

text \<open>
  C7. In both variants, when the name of the enclosing field context is absent or empty,
  \<open>useFormField\<close> throws the error \<open>useFormField should be used within <FormField>\<close>
  and returns no binding; the label, the control, the description and the message, which
  all start with the hook, end with the same throw and render nothing.
\<close>

theorem controls_require_field_context:
  assumes "falsy_string name"
    and "hook = useFormField_B name itemId formB \<or> hook = useFormField_A name type itemId formA"
  shows "hook = Inl (Error (js ''useFormField should be used within <FormField>'')) \<and>
         FormLabel hook = Inl (Error (js ''useFormField should be used within <FormField>'')) \<and>
         FormControl hook = Inl (Error (js ''useFormField should be used within <FormField>'')) \<and>
         FormDescription hook = Inl (Error (js ''useFormField should be used within <FormField>'')) \<and>
         FormMessage hook children = Inl (Error (js ''useFormField should be used within <FormField>''))"
proof -
  have "hook = Inl context_misuse"
    using assms useFormField_falsy[OF assms(1)] by auto
  then show ?thesis
    by (simp add: context_misuse_def FormLabel_def FormControl_def FormDescription_def
        FormMessage_def)
qed

text \<open>
  Variant B with no field context at all (name absent), Variant A with an empty name.
\<close>

theorem controls_require_field_context_witness:
  "useFormField_B None None (Some Home_mount)
     = Inl (Error (js ''useFormField should be used within <FormField>'')) \<and>
   FormLabel (useFormField_B None None (Some Home_mount))
     = Inl (Error (js ''useFormField should be used within <FormField>'')) \<and>
   FormMessage (useFormField_B None None (Some Home_mount)) (Some (js ''text''))
     = Inl (Error (js ''useFormField should be used within <FormField>'')) \<and>
   FormControl (useFormField_A (Some []) (Some (js ''text'')) (Some (js ''r1''))
       (Some (Form CreatePostForm_defaultValues None None None)))
     = Inl (Error (js ''useFormField should be used within <FormField>'')) \<and>
   FormDescription (useFormField_A (Some []) (Some (js ''text'')) (Some (js ''r1''))
       (Some (Form CreatePostForm_defaultValues None None None)))
     = Inl (Error (js ''useFormField should be used within <FormField>''))"
proof -
  let ?B = "useFormField_B None None (Some Home_mount) :: thrown + js_value field"
  let ?A = "useFormField_A (Some []) (Some (js ''text'')) (Some (js ''r1''))
              (Some (Form CreatePostForm_defaultValues None None None)) :: thrown + js_value field"
  let ?E = "Inl (Error (js ''useFormField should be used within <FormField>'')) :: thrown + rendered"
  have f: "falsy_string None" "falsy_string (Some [])" by (simp_all add: falsy_string_def)
  have b: "?B = Inl (Error (js ''useFormField should be used within <FormField>'')) \<and>
           FormLabel ?B = ?E \<and> FormControl ?B = ?E \<and> FormDescription ?B = ?E \<and>
           FormMessage ?B (Some (js ''text'')) = ?E"
    by (rule controls_require_field_context[where formA = None and type = None
          and itemId = None and formB = "Some Home_mount", OF f(1)]) simp
  have a: "?A = Inl (Error (js ''useFormField should be used within <FormField>'')) \<and>
           FormLabel ?A = ?E \<and> FormControl ?A = ?E \<and> FormDescription ?A = ?E \<and>
           FormMessage ?A None = ?E"
    by (rule controls_require_field_context[where formB = None and type = "Some (js ''text'')"
          and itemId = "Some (js ''r1'')"
          and formA = "Some (Form CreatePostForm_defaultValues None None None)", OF f(2)]) simp
  show ?thesis using a b by blast
qed


section \<open>Numbers in the change handler of Variant A\<close>

subsection \<open>Rounding an integer to a double\<close>

lemma binary_exponent_small: "m < 2 ^ 53 \<Longrightarrow> binary_exponent m = 0"
  by (subst binary_exponent.simps) simp

lemma binary_exponent_step: "2 ^ 53 \<le> m \<Longrightarrow> binary_exponent m = Suc (binary_exponent (m div 2))"
  by (subst binary_exponent.simps) simp

lemma binary_exponent_unique:
  "2 ^ (52 + e) \<le> m \<Longrightarrow> m < 2 ^ (53 + e) \<Longrightarrow> binary_exponent m = e"
proof (induction e arbitrary: m)
  case 0
  then show ?case by (simp add: binary_exponent_small)
next
  case (Suc e)
  define P :: int where "P = 2 ^ e"
  have p: "1 \<le> P" by (simp add: P_def)
  have big: "(2::int) ^ 53 \<le> m"
  proof -
    have "(2::int) ^ (52 + Suc e) = 2 ^ 53 * P" by (simp add: power_add P_def)
    then show ?thesis using Suc.prems(1) p by simp
  qed
  have lo: "2 ^ (52 + e) \<le> m div 2" using Suc.prems(1) by (simp add: power_add)
  have hi: "m div 2 < 2 ^ (53 + e)" using Suc.prems(2) by (simp add: power_add)
  show ?case using binary_exponent_step[OF big] Suc.IH[OF lo hi] by simp
qed

lemma binary_exponent_bounds:
  "2 ^ 52 \<le> m \<Longrightarrow> 2 ^ (52 + binary_exponent m) \<le> m \<and> m < 2 ^ (53 + binary_exponent m)"
proof (induction m rule: binary_exponent.induct)
  case (1 m)
  show ?case
  proof (cases "m < 2 ^ 53")
    case True
    then show ?thesis using "1.prems" by (simp add: binary_exponent_small)
  next
    case False
    then have big: "2 ^ 53 \<le> m" by simp
    then have "2 ^ 52 \<le> m div 2" by simp
    from "1.IH"[OF False this]
    have "2 ^ (52 + binary_exponent (m div 2)) \<le> m div 2"
      and "m div 2 < 2 ^ (53 + binary_exponent (m div 2))" by simp_all
    then show ?thesis
      unfolding binary_exponent_step[OF big] by (simp add: power_add) arith
  qed
qed

lemma roundTiesToEven_exact:
  assumes "0 \<le> m" and "m \<le> 2 ^ 53"
  shows "roundTiesToEven m = m"
proof (cases "m < 2 ^ 53")
  case True
  then show ?thesis by (simp add: roundTiesToEven_def binary_exponent_small)
next
  case False
  then have m: "m = 2 ^ 53" using assms(2) by simp
  have "binary_exponent m = 1"
    unfolding m using binary_exponent_unique[of 1 "2 ^ 53"] by simp
  then show ?thesis by (simp add: roundTiesToEven_def m)
qed

lemma roundTiesToEven_nearest:
  assumes "2 ^ 52 \<le> m"
  shows "\<exists>k. nearest_even m (binary_exponent m) k \<and>
             roundTiesToEven m = k * 2 ^ binary_exponent m"
proof -
  define e where "e = binary_exponent m"
  define P :: int where "P = 2 ^ e"
  define q where "q = m div P"
  define r where "r = m mod P"
  have P: "0 < P" by (simp add: P_def)
  have b: "2 ^ (52 + e) \<le> m" "m < 2 ^ (53 + e)"
    using binary_exponent_bounds[OF assms] by (simp_all add: e_def)
  have m: "m = q * P + r" by (simp add: q_def r_def)
  have r: "0 \<le> r" "r < P" using P by (simp_all add: r_def)
  have lo: "2 ^ 52 * P \<le> m" and hi: "m < 2 ^ 53 * P"
    using b by (simp_all add: power_add P_def)
  have q: "2 ^ 52 \<le> q" "q < 2 ^ 53"
  proof -
    have "2 ^ 52 * P div P \<le> m div P" using lo by (rule zdiv_mono1) (rule P)
    then show "2 ^ 52 \<le> q" using P by (simp add: q_def)
    show "q < 2 ^ 53"
    proof (rule ccontr)
      assume "\<not> q < 2 ^ 53"
      then have "2 ^ 53 * P \<le> q * P" using P by (intro mult_right_mono) simp_all
      then show False using hi m r by linarith
    qed
  qed
  define k where "k = (if P < 2 * r \<or> (2 * r = P \<and> odd q) then q + 1 else q)"
  have res: "roundTiesToEven m = k * P"
    by (simp add: roundTiesToEven_def Let_def k_def q_def r_def P_def e_def)
  have d: "k * P - m = (if P < 2 * r \<or> (2 * r = P \<and> odd q) then P - r else - r)"
    by (simp add: k_def m algebra_simps)
  have "2 ^ 52 \<le> k" "k \<le> 2 ^ 53" using q by (simp_all add: k_def)
  moreover have "2 * \<bar>k * P - m\<bar> \<le> P" unfolding d using r by auto
  moreover have "2 * \<bar>k * P - m\<bar> = P \<longrightarrow> even k"
    unfolding d using r by (auto simp: k_def)
  ultimately have "nearest_even m e k"
    using b by (simp add: nearest_even_def P_def)
  then show ?thesis using res by (auto simp: e_def P_def)
qed

lemma nearest_even_unique:
  assumes "nearest_even m e k" and "nearest_even m e' k'"
  shows "e = e' \<and> k = k'"
proof -
  have "binary_exponent m = e" "binary_exponent m = e'"
    using assms binary_exponent_unique[of e m] binary_exponent_unique[of e' m]
    by (simp_all add: nearest_even_def)
  then have ee: "e' = e" by simp
  define P :: int where "P = 2 ^ e"
  have P: "0 < P" by (simp add: P_def)
  have a: "2 * \<bar>k * P - m\<bar> \<le> P" "2 * \<bar>k * P - m\<bar> = P \<longrightarrow> even k"
       "2 * \<bar>k' * P - m\<bar> \<le> P" "2 * \<bar>k' * P - m\<bar> = P \<longrightarrow> even k'"
    using assms by (simp_all add: nearest_even_def P_def ee)
  define x where "x = k * P - m"
  define y where "y = k' * P - m"
  have ab: "2 * \<bar>z\<bar> \<le> P \<Longrightarrow> - P \<le> 2 * z \<and> 2 * z \<le> P" for z :: int
    by (simp add: abs_if split: if_splits)
  have xy: "- P \<le> 2 * x" "2 * x \<le> P" "- P \<le> 2 * y" "2 * y \<le> P"
    using ab[OF a(1)] ab[OF a(3)] by (simp_all only: x_def y_def)
  have diff: "(k - k') * P = x - y" by (simp add: x_def y_def algebra_simps)
  have "(k - k') * P \<le> 1 * P" "(- 1) * P \<le> (k - k') * P"
    unfolding diff using xy by linarith+
  then have near: "k - k' \<le> 1" "- 1 \<le> k - k'"
    using P by (simp_all only: mult_le_cancel_right)
  have "k = k'"
  proof (rule ccontr)
    assume "k \<noteq> k'"
    with near consider "k' = k + 1" | "k = k' + 1" by linarith
    then show False
    proof cases
      case 1
      then have "y = x + P" by (simp add: x_def y_def algebra_simps)
      with xy have "2 * x = - P" "2 * y = P" by linarith+
      then have "2 * \<bar>x\<bar> = P" "2 * \<bar>y\<bar> = P" using P by simp_all
      with a(2,4) 1 show False by (simp add: x_def y_def)
    next
      case 2
      then have "x = y + P" by (simp add: x_def y_def algebra_simps)
      with xy have "2 * y = - P" "2 * x = P" by linarith+
      then have "2 * \<bar>x\<bar> = P" "2 * \<bar>y\<bar> = P" using P by simp_all
      with a(2,4) 2 show False by (simp add: x_def y_def)
    qed
  qed
  with ee show ?thesis by simp
qed

lemma Number_value_exact: "\<bar>m\<bar> \<le> 2 ^ 53 \<Longrightarrow> Number_value m = Finite m"
proof -
  assume a: "\<bar>m\<bar> \<le> 2 ^ 53"
  then have r: "roundTiesToEven \<bar>m\<bar> = \<bar>m\<bar>" by (intro roundTiesToEven_exact) simp_all
  have "\<not> (2::int) ^ 1024 \<le> \<bar>m\<bar>"
  proof -
    have "(2::int) ^ 53 < 2 ^ 1024" by (rule power_strict_increasing) simp_all
    then show ?thesis using a by linarith
  qed
  then show ?thesis unfolding Number_value_def r Let_def by simp
qed

lemma Number_value_nearest:
  assumes "nearest_even \<bar>m\<bar> e k"
  shows "Number_value m =
           (if 2 ^ 1024 \<le> k * 2 ^ e then (if m < 0 then NegInfinity else Infinity)
            else Finite (if m < 0 then - (k * 2 ^ e) else k * 2 ^ e))"
proof -
  have "2 ^ 52 \<le> \<bar>m\<bar>"
  proof -
    define P :: int where "P = 2 ^ e"
    have "1 \<le> P" by (simp add: P_def)
    moreover have "2 ^ 52 * P \<le> \<bar>m\<bar>"
      using assms by (simp add: nearest_even_def power_add P_def)
    ultimately show ?thesis by simp
  qed
  then obtain k' where k': "nearest_even \<bar>m\<bar> (binary_exponent \<bar>m\<bar>) k'"
      "roundTiesToEven \<bar>m\<bar> = k' * 2 ^ binary_exponent \<bar>m\<bar>"
    using roundTiesToEven_nearest by blast
  from nearest_even_unique[OF assms k'(1)] have "roundTiesToEven \<bar>m\<bar> = k * 2 ^ e"
    using k'(2) by simp
  then show ?thesis by (simp add: Number_value_def Let_def)
qed

lemma Number_for_iff: "Number_for m x \<longleftrightarrow> x = Number_value m"
proof (cases "\<bar>m\<bar> \<le> 2 ^ 53")
  case True
  then show ?thesis by (simp add: Number_for_def Number_value_exact)
next
  case False
  then have "2 ^ 52 \<le> \<bar>m\<bar>" by simp
  then obtain k where k: "nearest_even \<bar>m\<bar> (binary_exponent \<bar>m\<bar>) k"
    using roundTiesToEven_nearest by blast
  show ?thesis
  proof
    assume "Number_for m x"
    then show "x = Number_value m"
      using False Number_value_nearest by (auto simp: Number_for_def)
  next
    assume "x = Number_value m"
    then have "\<exists>e k. nearest_even \<bar>m\<bar> e k \<and>
        x = (if 2 ^ 1024 \<le> k * 2 ^ e then (if m < 0 then NegInfinity else Infinity)
             else Finite (if m < 0 then - (k * 2 ^ e) else k * 2 ^ e))"
      using k Number_value_nearest[OF k] by blast
    then show "Number_for m x"
      unfolding Number_for_def using False by (simp only: if_False)
  qed
qed

lemma Number_value_overflow:
  assumes "2 ^ 1024 \<le> \<bar>m\<bar>"
  shows "Number_value m = (if m < 0 then NegInfinity else Infinity)"
proof -
  have "(2::int) ^ 52 \<le> 2 ^ 1024" by (rule power_increasing) simp_all
  then have "2 ^ 52 \<le> \<bar>m\<bar>" using assms by linarith
  then obtain k where k: "nearest_even \<bar>m\<bar> (binary_exponent \<bar>m\<bar>) k"
    using roundTiesToEven_nearest by blast
  define e where "e = binary_exponent \<bar>m\<bar>"
  have "(2::int) ^ 1024 < 2 ^ (53 + e)"
    using k assms by (simp add: nearest_even_def e_def)
  then have "1024 < 53 + e" by (simp only: power_strict_increasing_iff)
  then have "(2::int) ^ 972 \<le> 2 ^ e" by (intro power_increasing) simp_all
  moreover have "2 ^ 52 \<le> k" using k by (simp add: nearest_even_def)
  ultimately have "(2::int) ^ 52 * 2 ^ 972 \<le> k * 2 ^ e" by (intro mult_mono) simp_all
  then have "2 ^ 1024 \<le> k * 2 ^ e" by (simp only: flip: power_add) simp
  then show ?thesis using Number_value_nearest[OF k[folded e_def]] by simp
qed

subsection \<open>Parsing\<close>

lemma decimal_Cons: "decimal (c # ds) = digitValue c * 10 ^ length ds + decimal ds"
  by (simp add: decimal_def sum.lessThan_Suc_shift del: sum.lessThan_Suc)

lemma foldl_decimal:
  "foldl (\<lambda>acc c. 10 * acc + digitValue c) a ds = a * 10 ^ length ds + decimal ds"
proof (induction ds arbitrary: a)
  case Nil
  show ?case by (simp add: decimal_def)
next
  case (Cons c ds)
  have "foldl (\<lambda>acc c. 10 * acc + digitValue c) a (c # ds)
        = (10 * a + digitValue c) * 10 ^ length ds + decimal ds"
    by (simp only: foldl_Cons Cons.IH)
  also have "\<dots> = a * 10 ^ length (c # ds) + decimal (c # ds)"
    by (simp add: decimal_Cons algebra_simps)
  finally show ?case .
qed

lemma digit_not_space: "isDigit c \<Longrightarrow> \<not> isWhiteSpace c"
  unfolding isDigit_def isWhiteSpace_def word_le_def
  by auto

lemma digit_not_sign: "isDigit c \<Longrightarrow> c \<noteq> 0x2B \<and> c \<noteq> 0x2D"
  unfolding isDigit_def by auto

lemma sign_not_space: "\<not> isWhiteSpace 0x2B" "\<not> isWhiteSpace 0x2D"
  by (simp_all add: isWhiteSpace_def)

lemma digitValue_nonneg: "isDigit c \<Longrightarrow> 0 \<le> digitValue c"
  unfolding isDigit_def digitValue_def word_le_def
  by simp

lemma decimal_nonneg: "\<forall>c\<in>set ds. isDigit c \<Longrightarrow> 0 \<le> decimal ds"
  by (induction ds) (simp_all add: decimal_def[of "[]"] decimal_Cons digitValue_nonneg)

lemma decimal_foldl: "decimal ds = foldl (\<lambda>acc c. 10 * acc + digitValue c) 0 ds"
  by (simp add: foldl_decimal)


lemma trimStart_append:
  assumes "\<forall>c\<in>set ws. isWhiteSpace c" and "X \<noteq> []" and "\<not> isWhiteSpace (hd X)"
  shows "trimStart (ws @ X) = X"
proof -
  obtain x xs where X: "X = x # xs" using assms(2) by (cases X) auto
  with assms(3) have "dropWhile isWhiteSpace X = X" by simp
  with assms(1) show ?thesis by (simp add: trimStart_def dropWhile_append)
qed

lemma takeWhile_digits:
  assumes "\<forall>c\<in>set ds. isDigit c" and "rest = [] \<or> \<not> isDigit (hd rest)"
  shows "takeWhile isDigit (ds @ rest) = ds"
proof -
  have "takeWhile isDigit rest = []" using assms(2) by (cases rest) auto
  with assms(1) show ?thesis by (simp add: takeWhile_append2)
qed

lemma parseInt10_digits:
  assumes ws: "\<forall>c\<in>set ws. isWhiteSpace c"
    and sg: "sg = [] \<or> sg = [0x2B] \<or> sg = [0x2D]"
    and ds: "ds \<noteq> []" "\<forall>c\<in>set ds. isDigit c"
    and rest: "rest = [] \<or> \<not> isDigit (hd rest)"
  shows "parseInt10 (ws @ sg @ ds @ rest) =
           (if decimal ds = 0 then (if sg = [0x2D] then NegZero else Finite 0)
            else Number_value (if sg = [0x2D] then - decimal ds else decimal ds))"
proof -
  obtain d ds' where dsC: "ds = d # ds'" using ds(1) by (cases ds) auto
  have d: "isDigit d" using ds(2) dsC by simp
  have Z: "takeWhile isDigit (ds @ rest) = ds" by (rule takeWhile_digits[OF ds(2) rest])
  have val: "foldl (\<lambda>acc c. 10 * acc + digitValue c) 0 ds = decimal ds"
    by (simp add: foldl_decimal)
  from sg consider "sg = []" | "sg = [0x2B]" | "sg = [0x2D]" by blast
  then show ?thesis
  proof cases
    case 1
    have S: "trimStart (ws @ sg @ ds @ rest) = ds @ rest"
      using trimStart_append[OF ws, of "ds @ rest"] digit_not_space[OF d] dsC 1 by simp
    have hd: "hd (ds @ rest) \<noteq> 0x2B" "hd (ds @ rest) \<noteq> 0x2D"
      using digit_not_sign[OF d] dsC by simp_all
    show ?thesis
      unfolding parseInt10_def S Let_def using hd Z val ds(1) 1 by simp
  next
    case 2
    have S: "trimStart (ws @ sg @ ds @ rest) = 0x2B # ds @ rest"
      using trimStart_append[OF ws, of "0x2B # ds @ rest"] sign_not_space 2 by simp
    show ?thesis
      unfolding parseInt10_def S Let_def using Z val ds(1) 2 by simp
  next
    case 3
    have S: "trimStart (ws @ sg @ ds @ rest) = 0x2D # ds @ rest"
      using trimStart_append[OF ws, of "0x2D # ds @ rest"] sign_not_space 3 by simp
    show ?thesis
      unfolding parseInt10_def S Let_def using Z val ds(1) 3 by simp
  qed
qed

lemma parseInt10_no_digits:
  assumes ws: "\<forall>c\<in>set ws. isWhiteSpace c"
    and sg: "sg = [] \<or> sg = [0x2B] \<or> sg = [0x2D]"
    and rest: "rest = [] \<or>
               (\<not> isDigit (hd rest) \<and>
                (sg = [] \<longrightarrow> \<not> isWhiteSpace (hd rest) \<and> hd rest \<noteq> 0x2B \<and> hd rest \<noteq> 0x2D))"
  shows "parseInt10 (ws @ sg @ rest) = NaN"
proof -
  have Z: "takeWhile isDigit rest = []" using rest by (cases rest) auto
  from sg consider "sg = []" | "sg = [0x2B]" | "sg = [0x2D]" by blast
  then show ?thesis
  proof cases
    case 1
    show ?thesis
    proof (cases rest)
      case Nil
      have "trimStart (ws @ sg @ rest) = []"
        using ws 1 Nil by (simp add: trimStart_def)
      then show ?thesis by (simp add: parseInt10_def)
    next
      case (Cons r rs)
      have S: "trimStart (ws @ sg @ rest) = rest"
        using trimStart_append[OF ws, of rest] rest 1 Cons by simp
      show ?thesis
        unfolding parseInt10_def S Let_def using rest 1 Cons Z by simp
    qed
  next
    case 2
    have S: "trimStart (ws @ sg @ rest) = 0x2B # rest"
      using trimStart_append[OF ws, of "0x2B # rest"] sign_not_space 2 by simp
    show ?thesis unfolding parseInt10_def S Let_def using Z by simp
  next
    case 3
    have S: "trimStart (ws @ sg @ rest) = 0x2D # rest"
      using trimStart_append[OF ws, of "0x2D # rest"] sign_not_space 3 by simp
    show ?thesis unfolding parseInt10_def S Let_def using Z by simp
  qed
qed

lemma FormField_onChange_number:
  assumes "ev = RawString v \<or> ev = ChangeEvent v"
  shows "FormField_onChange name (Some (js ''number'')) ev prev =
           prev(name \<mapsto> Num (if parseInt10 v = NaN then Finite 0 else parseInt10 v))"
  using assms by (auto simp: FormField_onChange_def Form_setData_def Number_isNaN_def)

lemma FormField_onChange_text:
  assumes "ev = RawString v \<or> ev = ChangeEvent v" and "type \<noteq> Some (js ''number'')"
  shows "FormField_onChange name type ev prev = prev(name \<mapsto> Str v)"
proof -
  have "(case type of None \<Rightarrow> js ''text'' | Some t \<Rightarrow> t) \<noteq> js ''number''"
    using assms(2) by (cases type) (simp_all add: js_def)
  then show ?thesis
    using assms(1) by (auto simp: FormField_onChange_def Form_setData_def)
qed

lemma digit_run:
  assumes "X \<noteq> []" and "isDigit (hd X)"
  shows "\<exists>ds rest. X = ds @ rest \<and> ds \<noteq> [] \<and> (\<forall>c\<in>set ds. isDigit c) \<and>
           (rest = [] \<or> \<not> isDigit (hd rest))"
proof (intro exI conjI)
  show "X = takeWhile isDigit X @ dropWhile isDigit X" by simp
  show "takeWhile isDigit X \<noteq> []" using assms by (cases X) auto
  show "\<forall>c\<in>set (takeWhile isDigit X). isDigit c" by (auto dest: set_takeWhileD)
  show "dropWhile isDigit X = [] \<or> \<not> isDigit (hd (dropWhile isDigit X))"
    using hd_dropWhile[of isDigit X] by blast
qed

text \<open>
  Every string is white space, an optional sign and then either a run of digits or
  something that does not start with a digit.
\<close>

lemma string_shapes:
  "\<exists>ws sg rest. s = ws @ sg @ rest \<and> (\<forall>c\<in>set ws. isWhiteSpace c) \<and>
     (sg = [] \<or> sg = [0x2B] \<or> sg = [0x2D]) \<and>
     ((\<exists>ds rest'. rest = ds @ rest' \<and> ds \<noteq> [] \<and> (\<forall>c\<in>set ds. isDigit c) \<and>
          (rest' = [] \<or> \<not> isDigit (hd rest'))) \<or>
      rest = [] \<or>
      (\<not> isDigit (hd rest) \<and>
         (sg = [] \<longrightarrow> \<not> isWhiteSpace (hd rest) \<and> hd rest \<noteq> 0x2B \<and> hd rest \<noteq> 0x2D)))"
proof -
  let ?ws = "takeWhile isWhiteSpace s" and ?S = "dropWhile isWhiteSpace s"
  have s: "s = ?ws @ ?S" by simp
  have ws: "\<forall>c\<in>set ?ws. isWhiteSpace c" by (auto dest: set_takeWhileD)
  show ?thesis
  proof (cases ?S)
    case Nil
    then have "s = ?ws @ [] @ []" using s by (metis append_Nil2)
    with ws show ?thesis by blast
  next
    case (Cons c S1)
    have c: "\<not> isWhiteSpace c" using hd_dropWhile[of isWhiteSpace s] Cons by simp
    show ?thesis
    proof (cases "c = 0x2B \<or> c = 0x2D")
      case True
      have eq: "s = ?ws @ [c] @ S1" using s Cons by simp
      show ?thesis
      proof (cases "S1 \<noteq> [] \<and> isDigit (hd S1)")
        case True
        then obtain ds rest' where "S1 = ds @ rest'" "ds \<noteq> []" "\<forall>c\<in>set ds. isDigit c"
          "rest' = [] \<or> \<not> isDigit (hd rest')"
          using digit_run[of S1] by blast
        with eq ws \<open>c = 0x2B \<or> c = 0x2D\<close> show ?thesis by blast
      next
        case False
        with eq ws \<open>c = 0x2B \<or> c = 0x2D\<close> show ?thesis by blast
      qed
    next
      case False
      have eq: "s = ?ws @ [] @ (c # S1)" using s Cons by simp
      show ?thesis
      proof (cases "isDigit c")
        case True
        then obtain ds rest' where "c # S1 = ds @ rest'" "ds \<noteq> []" "\<forall>c\<in>set ds. isDigit c"
          "rest' = [] \<or> \<not> isDigit (hd rest')"
          using digit_run[of "c # S1"] by auto
        with eq ws show ?thesis by blast
      next
        case nd: False
        have "\<not> isDigit (hd (c # S1)) \<and> \<not> isWhiteSpace (hd (c # S1)) \<and>
              hd (c # S1) \<noteq> 0x2B \<and> hd (c # S1) \<noteq> 0x2D"
          using nd c False by simp
        with eq ws show ?thesis by blast
      qed
    qed
  qed
qed

subsection \<open>What the change handler stores\<close>

lemma integer_prefixI:
  assumes "\<forall>c\<in>set ws. isWhiteSpace c" and "sg = [] \<or> sg = [0x2B] \<or> sg = [0x2D]"
    and "ds \<noteq> []" and "\<forall>c\<in>set ds. isDigit c" and "rest = [] \<or> \<not> isDigit (hd rest)"
  shows "integer_prefix (ws @ sg @ ds @ rest) sg ds"
  unfolding integer_prefix_def using assms by blast

lemma prefix_number_iff:
  "prefix_number sg ds x \<longleftrightarrow>
     x = (if decimal ds = 0 then (if sg = [0x2D] then NegZero else Finite 0)
          else Number_value (if sg = [0x2D] then - decimal ds else decimal ds))"
  by (simp add: prefix_number_def Number_for_iff)

lemma Number_value_not_NaN: "Number_value m \<noteq> NaN"
  by (simp add: Number_value_def Let_def)

lemma integer_prefix_parse:
  assumes "integer_prefix v sg ds"
  shows "prefix_number sg ds (parseInt10 v)" and "parseInt10 v \<noteq> NaN"
proof -
  obtain ws rest where v: "v = ws @ sg @ ds @ rest" and c: "\<forall>c\<in>set ws. isWhiteSpace c"
    "sg = [] \<or> sg = [0x2B] \<or> sg = [0x2D]" "ds \<noteq> []" "\<forall>c\<in>set ds. isDigit c"
    "rest = [] \<or> \<not> isDigit (hd rest)"
    using assms unfolding integer_prefix_def by blast
  have p: "parseInt10 v =
      (if decimal ds = 0 then (if sg = [0x2D] then NegZero else Finite 0)
       else Number_value (if sg = [0x2D] then - decimal ds else decimal ds))"
    unfolding v by (rule parseInt10_digits[OF c])
  show "prefix_number sg ds (parseInt10 v)" by (simp add: prefix_number_iff p)
  show "parseInt10 v \<noteq> NaN" by (simp add: p Number_value_not_NaN)
qed

lemma no_integer_prefix_parse:
  assumes "\<forall>sg ds. \<not> integer_prefix v sg ds"
  shows "parseInt10 v = NaN"
proof -
  obtain ws sg rest where v: "v = ws @ sg @ rest" and ws: "\<forall>c\<in>set ws. isWhiteSpace c"
    and sg: "sg = [] \<or> sg = [0x2B] \<or> sg = [0x2D]"
    and shape: "(\<exists>ds rest'. rest = ds @ rest' \<and> ds \<noteq> [] \<and> (\<forall>c\<in>set ds. isDigit c) \<and>
          (rest' = [] \<or> \<not> isDigit (hd rest'))) \<or>
      rest = [] \<or>
      (\<not> isDigit (hd rest) \<and>
         (sg = [] \<longrightarrow> \<not> isWhiteSpace (hd rest) \<and> hd rest \<noteq> 0x2B \<and> hd rest \<noteq> 0x2D))"
    using string_shapes[of v] by blast
  have "\<not> (\<exists>ds rest'. rest = ds @ rest' \<and> ds \<noteq> [] \<and> (\<forall>c\<in>set ds. isDigit c) \<and>
          (rest' = [] \<or> \<not> isDigit (hd rest')))"
  proof
    assume "\<exists>ds rest'. rest = ds @ rest' \<and> ds \<noteq> [] \<and> (\<forall>c\<in>set ds. isDigit c) \<and>
          (rest' = [] \<or> \<not> isDigit (hd rest'))"
    then obtain ds rest' where "rest = ds @ rest'" "ds \<noteq> []" "\<forall>c\<in>set ds. isDigit c"
      "rest' = [] \<or> \<not> isDigit (hd rest')" by blast
    then have "integer_prefix v sg ds"
      unfolding v using integer_prefixI[OF ws sg, of ds rest'] by simp
    with assms show False by blast
  qed
  with shape have "rest = [] \<or>
      (\<not> isDigit (hd rest) \<and>
         (sg = [] \<longrightarrow> \<not> isWhiteSpace (hd rest) \<and> hd rest \<noteq> 0x2B \<and> hd rest \<noteq> 0x2D))"
    by blast
  then show ?thesis unfolding v by (rule parseInt10_no_digits[OF ws sg])
qed

lemmas eval_parse = js_def isWhiteSpace_def isDigit_def digitValue_def decimal_foldl

lemma decimal_zeros: "decimal (c # replicate n 0x30) = digitValue c * 10 ^ n"
proof -
  have "decimal (replicate n 0x30) = 0"
    by (induction n) (simp_all add: decimal_def[of "[]"] decimal_Cons digitValue_def)
  then show ?thesis by (simp add: decimal_Cons)
qed

lemma stored_2_53_plus_1:
  "FormField_onChange (js ''price'') (Some (js ''number''))
     (RawString (js ''9007199254740993'')) Map.empty (js ''price'')
     = Some (Num (Finite 9007199254740992))"
proof -
  have d: "decimal (js ''9007199254740993'') = 9007199254740993" by (simp add: eval_parse)
  have n: "Number_value 9007199254740993 = Finite 9007199254740992"
    using Number_value_nearest[of 9007199254740993 1 "2 ^ 52"] by (simp add: nearest_even_def)
  have "parseInt10 ([] @ [] @ js ''9007199254740993'' @ []) = Finite 9007199254740992"
    using parseInt10_digits[of "[]" "[]" "js ''9007199254740993''" "[]"] d n
    by (simp add: eval_parse)
  then have p: "parseInt10 (js ''9007199254740993'') = Finite 9007199254740992" by simp
  show ?thesis
    using FormField_onChange_number[of "RawString (js ''9007199254740993'')"
        "js ''9007199254740993''" "js ''price''" Map.empty] p
    by simp
qed


text \<open>
  C4. Variant A. The change handler turns its argument, a raw string or a change event,
  into the string \<open>v\<close>. On a field of any type other than \<open>number\<close> (or of none, which
  defaults to \<open>text\<close>) it stores \<open>v\<close> itself under the field's name. On a field of type
  \<open>number\<close> it stores the number 0 when \<open>v\<close> does not parse, that is when \<open>v\<close> has no
  integer prefix, and otherwise the parsed number, the JavaScript number written by
  the sign and digits of that prefix. Every other field keeps its value.
\<close>

theorem onChange_stores_parsed_or_string:
  assumes "ev = RawString v \<or> ev = ChangeEvent v"
  shows "(type \<noteq> Some (js ''number'') \<longrightarrow>
            FormField_onChange name type ev prev = prev(name \<mapsto> Str v)) \<and>
         ((\<forall>sg ds. \<not> integer_prefix v sg ds) \<longrightarrow>
            FormField_onChange name (Some (js ''number'')) ev prev = prev(name \<mapsto> Num (Finite 0))) \<and>
         (\<forall>sg ds. integer_prefix v sg ds \<longrightarrow>
            (\<exists>x. prefix_number sg ds x \<and>
                 FormField_onChange name (Some (js ''number'')) ev prev = prev(name \<mapsto> Num x)))"
proof (intro conjI allI impI)
  assume "type \<noteq> Some (js ''number'')"
  then show "FormField_onChange name type ev prev = prev(name \<mapsto> Str v)"
    by (rule FormField_onChange_text[OF assms])
next
  assume "\<forall>sg ds. \<not> integer_prefix v sg ds"
  then have "parseInt10 v = NaN" by (rule no_integer_prefix_parse)
  then show "FormField_onChange name (Some (js ''number'')) ev prev = prev(name \<mapsto> Num (Finite 0))"
    using FormField_onChange_number[OF assms, of name prev] by simp
next
  fix sg ds
  assume "integer_prefix v sg ds"
  from integer_prefix_parse[OF this]
  have "prefix_number sg ds (parseInt10 v) \<and>
        FormField_onChange name (Some (js ''number'')) ev prev = prev(name \<mapsto> Num (parseInt10 v))"
    using FormField_onChange_number[OF assms, of name prev] by simp
  then show "\<exists>x. prefix_number sg ds x \<and>
       FormField_onChange name (Some (js ''number'')) ev prev = prev(name \<mapsto> Num x)"
    by blast
qed

text \<open>
  The strings \<open>42\<close> and \<open>7\<close> store the numbers 42 and 7, \<open>abc\<close> stores 0, and a text
  field stores \<open>42\<close> as a string.
\<close>

theorem onChange_stores_parsed_or_string_witness:
  "FormField_onChange (js ''price'') (Some (js ''number'')) (RawString (js ''42'')) Map.empty
     = [js ''price'' \<mapsto> Num (Finite 42)] \<and>
   FormField_onChange (js ''price'') (Some (js ''number'')) (ChangeEvent (js ''7'')) Map.empty
     = [js ''price'' \<mapsto> Num (Finite 7)] \<and>
   FormField_onChange (js ''price'') (Some (js ''number'')) (ChangeEvent (js ''abc'')) Map.empty
     = [js ''price'' \<mapsto> Num (Finite 0)] \<and>
   FormField_onChange (js ''title'') None (ChangeEvent (js ''42'')) Map.empty
     = [js ''title'' \<mapsto> Str (js ''42'')]"
proof -
  have p42: "integer_prefix (js ''42'') [] (js ''42'')"
    using integer_prefixI[of "[]" "[]" "js ''42''" "[]"] by (simp add: eval_parse)
  have p7: "integer_prefix (js ''7'') [] (js ''7'')"
    using integer_prefixI[of "[]" "[]" "js ''7''" "[]"] by (simp add: eval_parse)
  have n42: "prefix_number [] (js ''42'') x \<longleftrightarrow> x = Finite 42" for x
    by (simp add: prefix_number_def Number_for_def eval_parse)
  have n7: "prefix_number [] (js ''7'') x \<longleftrightarrow> x = Finite 7" for x
    by (simp add: prefix_number_def Number_for_def eval_parse)
  have abc: "\<forall>sg ds. \<not> integer_prefix (js ''abc'') sg ds"
  proof (intro allI notI)
    fix sg ds assume "integer_prefix (js ''abc'') sg ds"
    then have "parseInt10 (js ''abc'') \<noteq> NaN" by (rule integer_prefix_parse(2))
    then show False by (simp add: parseInt10_def trimStart_def eval_parse)
  qed
  have c1: "FormField_onChange (js ''price'') (Some (js ''number'')) (RawString (js ''42'')) Map.empty
     = [js ''price'' \<mapsto> Num (Finite 42)]"
  proof -
    from onChange_stores_parsed_or_string[of "RawString (js ''42'')" "js ''42''" None
        "js ''price''" Map.empty] p42
    obtain x where "prefix_number [] (js ''42'') x"
      "FormField_onChange (js ''price'') (Some (js ''number'')) (RawString (js ''42'')) Map.empty
         = [js ''price'' \<mapsto> Num x]"
      by blast
    then show ?thesis by (simp add: n42)
  qed
  have c2: "FormField_onChange (js ''price'') (Some (js ''number'')) (ChangeEvent (js ''7'')) Map.empty
     = [js ''price'' \<mapsto> Num (Finite 7)]"
  proof -
    from onChange_stores_parsed_or_string[of "ChangeEvent (js ''7'')" "js ''7''" None
        "js ''price''" Map.empty] p7
    obtain x where "prefix_number [] (js ''7'') x"
      "FormField_onChange (js ''price'') (Some (js ''number'')) (ChangeEvent (js ''7'')) Map.empty
         = [js ''price'' \<mapsto> Num x]"
      by blast
    then show ?thesis by (simp add: n7)
  qed
  have c3: "FormField_onChange (js ''price'') (Some (js ''number'')) (ChangeEvent (js ''abc'')) Map.empty
     = [js ''price'' \<mapsto> Num (Finite 0)]"
    using onChange_stores_parsed_or_string[of "ChangeEvent (js ''abc'')" "js ''abc''" None
        "js ''price''" Map.empty] abc
    by blast
  have c4: "FormField_onChange (js ''title'') None (ChangeEvent (js ''42'')) Map.empty
     = [js ''title'' \<mapsto> Str (js ''42'')]"
    using onChange_stores_parsed_or_string[of "ChangeEvent (js ''42'')" "js ''42''" None
        "js ''title''" Map.empty]
    by blast
  show ?thesis using c1 c2 c3 c4 by blast
qed

text \<open>
  C9 (as amended). Variant A. On a field of type \<open>number\<close>, a string with an integer
  prefix (white space, an optional sign, decimal digits, and a rest that does not go on
  with a digit) stores a number, and exactly the JavaScript number for the integer of
  that prefix: the integer itself when it is at most \<open>2 ^ 53\<close> in magnitude, the nearest
  double beyond (ties to even), and an infinity once that double would be \<open>2 ^ 1024\<close>, as
  it is for every integer from \<open>2 ^ 1024\<close> on. The rest of the string, a fractional part
  for one, is discarded.
\<close>

theorem numeric_field_stores_number_of_prefix:
  assumes "integer_prefix v sg ds" and "ev = RawString v \<or> ev = ChangeEvent v"
  shows "(\<exists>x. FormField_onChange name (Some (js ''number'')) ev prev name = Some (Num x)) \<and>
         (\<forall>x. FormField_onChange name (Some (js ''number'')) ev prev name = Some (Num x)
                \<longleftrightarrow> prefix_number sg ds x) \<and>
         (decimal ds \<noteq> 0 \<and> decimal ds \<le> 2 ^ 53 \<longrightarrow>
            FormField_onChange name (Some (js ''number'')) ev prev name =
              Some (Num (Finite (if sg = [0x2D] then - decimal ds else decimal ds)))) \<and>
         (2 ^ 1024 \<le> decimal ds \<longrightarrow>
            FormField_onChange name (Some (js ''number'')) ev prev name =
              Some (Num (if sg = [0x2D] then NegInfinity else Infinity)))"
proof -
  have ds: "0 \<le> decimal ds"
    using assms(1) by (auto simp: integer_prefix_def intro: decimal_nonneg)
  have st: "FormField_onChange name (Some (js ''number'')) ev prev name = Some (Num (parseInt10 v))"
    using FormField_onChange_number[OF assms(2), of name prev] integer_prefix_parse(2)[OF assms(1)]
    by simp
  have p: "parseInt10 v =
      (if decimal ds = 0 then (if sg = [0x2D] then NegZero else Finite 0)
       else Number_value (if sg = [0x2D] then - decimal ds else decimal ds))"
    using integer_prefix_parse(1)[OF assms(1)] by (simp add: prefix_number_iff)
  have a: "\<forall>x. FormField_onChange name (Some (js ''number'')) ev prev name = Some (Num x)
                \<longleftrightarrow> prefix_number sg ds x"
    unfolding st prefix_number_iff p by auto
  have b: "decimal ds \<noteq> 0 \<and> decimal ds \<le> 2 ^ 53 \<longrightarrow>
            FormField_onChange name (Some (js ''number'')) ev prev name =
              Some (Num (Finite (if sg = [0x2D] then - decimal ds else decimal ds)))"
    unfolding st p using ds by (simp add: Number_value_exact)
  have c: "2 ^ 1024 \<le> decimal ds \<longrightarrow>
            FormField_onChange name (Some (js ''number'')) ev prev name =
              Some (Num (if sg = [0x2D] then NegInfinity else Infinity))"
  proof
    assume big: "2 ^ 1024 \<le> decimal ds"
    have "(0::int) < 2 ^ 1024" by (rule zero_less_power) simp
    with big have nz: "decimal ds \<noteq> 0" "0 < decimal ds" by linarith+
    show "FormField_onChange name (Some (js ''number'')) ev prev name =
              Some (Num (if sg = [0x2D] then NegInfinity else Infinity))"
      unfolding st p using big nz Number_value_overflow[of "decimal ds"]
        Number_value_overflow[of "- decimal ds"] by simp
  qed
  show ?thesis using st a b c by blast
qed

text \<open>
  \<open>3.9\<close> stores 3, \<open>42px\<close> stores 42, \<open> -7.5\<close> stores -7; \<open>9007199254740995\<close> stores
  9007199254740996; minus a one with 309 zeros stores negative infinity.
\<close>

theorem numeric_field_stores_number_of_prefix_witness:
  "FormField_onChange (js ''price'') (Some (js ''number'')) (RawString (js ''3.9'')) Map.empty
     (js ''price'') = Some (Num (Finite 3)) \<and>
   FormField_onChange (js ''price'') (Some (js ''number'')) (ChangeEvent (js ''42px'')) Map.empty
     (js ''price'') = Some (Num (Finite 42)) \<and>
   FormField_onChange (js ''price'') (Some (js ''number'')) (RawString (js '' -7.5'')) Map.empty
     (js ''price'') = Some (Num (Finite (- 7))) \<and>
   FormField_onChange (js ''price'') (Some (js ''number''))
     (RawString (js ''9007199254740995'')) Map.empty (js ''price'')
     = Some (Num (Finite 9007199254740996)) \<and>
   FormField_onChange (js ''price'') (Some (js ''number''))
     (RawString (0x2D # 0x31 # replicate 309 0x30)) Map.empty (js ''price'')
     = Some (Num NegInfinity)"
proof -
  have p1: "integer_prefix (js ''3.9'') [] (js ''3'')"
    using integer_prefixI[of "[]" "[]" "js ''3''" "js ''.9''"] by (simp add: eval_parse)
  have p2: "integer_prefix (js ''42px'') [] (js ''42'')"
    using integer_prefixI[of "[]" "[]" "js ''42''" "js ''px''"] by (simp add: eval_parse)
  have p3: "integer_prefix (js '' -7.5'') [0x2D] (js ''7'')"
    using integer_prefixI[of "js '' ''" "[0x2D]" "js ''7''" "js ''.5''"] by (simp add: eval_parse)
  have p4: "integer_prefix (js ''9007199254740995'') [] (js ''9007199254740995'')"
    using integer_prefixI[of "[]" "[]" "js ''9007199254740995''" "[]"] by (simp add: eval_parse)
  have p5: "integer_prefix (0x2D # 0x31 # replicate 309 0x30) [0x2D] (0x31 # replicate 309 0x30)"
    using integer_prefixI[of "[]" "[0x2D]" "0x31 # replicate 309 0x30" "[]"]
    by (simp add: isDigit_def)
  have d: "decimal (js ''3'') = 3" "decimal (js ''42'') = 42" "decimal (js ''7'') = 7"
    by (simp_all add: eval_parse)
  have d5: "2 ^ 1024 \<le> decimal (0x31 # replicate 309 0x30)"
    by (simp add: decimal_zeros digitValue_def)
  have n4: "prefix_number [] (js ''9007199254740995'') (Finite 9007199254740996)"
  proof -
    have "nearest_even 9007199254740995 1 (2 ^ 52 + 2)" by (simp add: nearest_even_def)
    then have "\<exists>e k. nearest_even 9007199254740995 e k \<and>
        Finite 9007199254740996 =
          (if 2 ^ 1024 \<le> k * 2 ^ e then (if (9007199254740995::int) < 0 then NegInfinity else Infinity)
           else Finite (if (9007199254740995::int) < 0 then - (k * 2 ^ e) else k * 2 ^ e))"
      by (intro exI[of _ 1] exI[of _ "2 ^ 52 + 2"]) simp
    then show ?thesis by (simp add: prefix_number_def Number_for_def eval_parse)
  qed
  have c1: "FormField_onChange (js ''price'') (Some (js ''number'')) (RawString (js ''3.9'')) Map.empty
     (js ''price'') = Some (Num (Finite 3))"
    using numeric_field_stores_number_of_prefix[OF p1, of "RawString (js ''3.9'')" "js ''price''"
        Map.empty] d
    by simp
  have c2: "FormField_onChange (js ''price'') (Some (js ''number'')) (ChangeEvent (js ''42px'')) Map.empty
     (js ''price'') = Some (Num (Finite 42))"
    using numeric_field_stores_number_of_prefix[OF p2, of "ChangeEvent (js ''42px'')" "js ''price''"
        Map.empty] d
    by simp
  have c3: "FormField_onChange (js ''price'') (Some (js ''number'')) (RawString (js '' -7.5'')) Map.empty
     (js ''price'') = Some (Num (Finite (- 7)))"
    using numeric_field_stores_number_of_prefix[OF p3, of "RawString (js '' -7.5'')" "js ''price''"
        Map.empty] d
    by simp
  have c4: "FormField_onChange (js ''price'') (Some (js ''number''))
     (RawString (js ''9007199254740995'')) Map.empty (js ''price'')
     = Some (Num (Finite 9007199254740996))"
    using numeric_field_stores_number_of_prefix[OF p4, of "RawString (js ''9007199254740995'')"
        "js ''price''" Map.empty] n4
    by blast
  have c5: "FormField_onChange (js ''price'') (Some (js ''number''))
     (RawString (0x2D # 0x31 # replicate 309 0x30)) Map.empty (js ''price'')
     = Some (Num NegInfinity)"
    using numeric_field_stores_number_of_prefix[OF p5,
        of "RawString (0x2D # 0x31 # replicate 309 0x30)" "js ''price''" Map.empty] d5
    by simp
  show ?thesis using c1 c2 c3 c4 c5 by blast
qed

text \<open>
  C9 as stated fails: the stored value is not always the integer prefix. The string
  \<open>9007199254740993\<close> is its own integer prefix, \<open>2 ^ 53 + 1\<close>, and what is stored is
  \<open>9007199254740992\<close>.
\<close>

theorem integer_prefix_not_stored_counterexample:
  "integer_prefix (js ''9007199254740993'') [] (js ''9007199254740993'') \<and>
   decimal (js ''9007199254740993'') = 9007199254740993 \<and>
   FormField_onChange (js ''price'') (Some (js ''number''))
     (RawString (js ''9007199254740993'')) Map.empty (js ''price'')
     = Some (Num (Finite 9007199254740992)) \<and>
   FormField_onChange (js ''price'') (Some (js ''number''))
     (RawString (js ''9007199254740993'')) Map.empty (js ''price'')
     \<noteq> Some (Num (Finite (decimal (js ''9007199254740993''))))"
proof -
  have "integer_prefix (js ''9007199254740993'') [] (js ''9007199254740993'')"
    using integer_prefixI[of "[]" "[]" "js ''9007199254740993''" "[]"] by (simp add: eval_parse)
  moreover have "decimal (js ''9007199254740993'') = 9007199254740993" by (simp add: eval_parse)
  ultimately show ?thesis using stored_2_53_plus_1 by simp
qed

end
